theory Spec2Isabelle
  imports Main "HOL-Library.Sublist"
begin

section \<open>The Go values the container is built from\<close>

text \<open>
  The container stores a Go \<^verbatim>\<open>error\<close>, an interface with the single method
  \<^verbatim>\<open>Error() string\<close>. The interface is open: \<open>Err\<close> takes a value of any type
  that has the method, and \<open>Unwrap\<close> and \<open>Expect\<close> call the method through the
  interface. The program makes its own errors with \<^verbatim>\<open>fmt.Errorf\<close> (main.go, lines 8
  and 14): without \<^verbatim>\<open>%w\<close> that is an error holding its text, with \<^verbatim>\<open>%w\<close> an
  error holding its text and the error it wraps. An error of any other type is
  \<open>customError\<close>: the name of its type and what its \<^verbatim>\<open>Error()\<close> does when called.
  That method may return a text; it may panic, with a run-time error (a nil pointer
  stored in the interface, dereferenced by the method), with a string, or with its own
  receiver; or it may never return.
\<close>

datatype error_method =
    Gives string
  | Panics_runtime string
  | Panics_string string
  | Panics_receiver
  | Never_returns

datatype go_error =
    errorString string
  | wrapError string go_error
  | customError string error_method

text \<open>
  \<^verbatim>\<open>panic\<close> takes a value of type \<^verbatim>\<open>any\<close>. Of its dynamic types the model keeps
  three: a string, an error value (what \<^verbatim>\<open>panic(r.err)\<close> would carry), and a
  run-time error raised by the language itself.
\<close>

datatype panic_value = PanicString string | PanicError go_error | PanicRuntimeError string

text \<open>
  What a call that can fail does: it returns a value, it panics with a value, or it
  never returns.
\<close>

datatype 'a go_call = Return 'a | Panic panic_value | Hang

text \<open>The call \<^verbatim>\<open>e.Error()\<close> on an error value, dispatched on its dynamic type.\<close>

fun error_Error :: "go_error \<Rightarrow> string go_call" where
  "error_Error (errorString s) = Return s"
| "error_Error (wrapError msg e) = Return msg"
| "error_Error (customError n (Gives s)) = Return s"
| "error_Error (customError n (Panics_runtime s)) = Panic (PanicRuntimeError s)"
| "error_Error (customError n (Panics_string s)) = Panic (PanicString s)"
| "error_Error (customError n Panics_receiver) = Panic (PanicError (customError n Panics_receiver))"
| "error_Error (customError n Never_returns) = Hang"

text \<open>A variable of type \<^verbatim>\<open>error\<close> is \<^verbatim>\<open>nil\<close> (\<open>None\<close>) or holds an error value.\<close>

type_synonym error = "go_error option"

text \<open>
  \<^verbatim>\<open>var zero T\<close> is the zero value of the type parameter. The class \<open>default\<close> of HOL
  supplies one constant per type; the instances below give it Go's zero value for
  \<^verbatim>\<open>int\<close>, \<^verbatim>\<open>bool\<close>, \<^verbatim>\<open>string\<close> and pointers (\<open>None\<close> is \<^verbatim>\<open>nil\<close>).
\<close>

instantiation int :: default
begin
definition default_int :: int where "default_int = 0"
instance ..
end

instantiation bool :: default
begin
definition default_bool :: bool where "default_bool = False"
instance ..
end

instantiation list :: (type) default
begin
definition default_list :: "'a list" where "default_list = []"
instance ..
end

instantiation option :: (type) default
begin
definition default_option :: "'a option" where "default_option = None"
instance ..
end

section \<open>The container (src/unnamed/part\_000)\<close>

text \<open>
  \<^verbatim>\<open>type Result[T any] struct { value T; err error }\<close>. The field \<^verbatim>\<open>value\<close> is
  called \<open>val\<close> here.
\<close>

record 'a Result =
  val :: 'a
  err :: error

definition Ok :: "'a \<Rightarrow> 'a Result" where
  "Ok v = \<lparr>val = v, err = None\<rparr>"

definition Err :: "error \<Rightarrow> ('a::default) Result" where
  "Err e = (let zero = default in \<lparr>val = zero, err = e\<rparr>)"

definition IsOk :: "'a Result \<Rightarrow> bool" where
  "IsOk r = (err r = None)"

definition IsErr :: "'a Result \<Rightarrow> bool" where
  "IsErr r = (err r \<noteq> None)"

definition Error :: "'a Result \<Rightarrow> error" where
  "Error r = err r"

text \<open>
  \<open>Unwrap\<close> and \<open>Expect\<close> evaluate the operand of \<^verbatim>\<open>panic\<close> first, and the
  operand calls \<^verbatim>\<open>r.err.Error()\<close>. When that call returns a text the message is
  built and the method panics with it; when the call panics, that panic leaves the
  method and no message is built; when the call never returns, neither does the method.
\<close>

definition Unwrap :: "'a Result \<Rightarrow> 'a go_call" where
  "Unwrap r =
     (case err r of
        Some e \<Rightarrow>
          (case error_Error e of
             Return s \<Rightarrow> Panic (PanicString (''called Unwrap on Err: '' @ s))
           | Panic p \<Rightarrow> Panic p
           | Hang \<Rightarrow> Hang)
      | None \<Rightarrow> Return (val r))"

definition Expect :: "'a Result \<Rightarrow> string \<Rightarrow> 'a go_call" where
  "Expect r msg =
     (case err r of
        Some e \<Rightarrow>
          (case error_Error e of
             Return s \<Rightarrow> Panic (PanicString (msg @ '': '' @ s))
           | Panic p \<Rightarrow> Panic p
           | Hang \<Rightarrow> Hang)
      | None \<Rightarrow> Return (val r))"

definition UnwrapOr :: "'a Result \<Rightarrow> 'a \<Rightarrow> 'a" where
  "UnwrapOr r def = (if err r \<noteq> None then def else val r)"

definition UnwrapOrErr :: "('a::default) Result \<Rightarrow> error \<Rightarrow> 'a \<times> error" where
  "UnwrapOrErr r newErr =
     (if err r \<noteq> None then (let zero = default in (zero, newErr))
      else (val r, None))"

text \<open>
  A variable declared without a constructor (\<^verbatim>\<open>var r Result[T]\<close>) has the zero value
  of the struct: each field is the zero value of its type, and that of \<^verbatim>\<open>error\<close>
  is nil.
\<close>

definition zero_Result :: "('a::default) Result" where
  "zero_Result = \<lparr>val = default, err = default\<rparr>"

subsection \<open>Calls on a variable that holds an instance\<close>



















section \<open>Success\<close>

text \<open>
  C1. For every value \<open>v\<close>, the result \<open>Ok v\<close> answers \<open>IsOk\<close> with true and
  \<open>IsErr\<close> with false, its \<open>Error\<close> is nil, \<open>Unwrap\<close> and \<open>Expect m\<close> (any
  message) return \<open>v\<close> without a panic, \<open>UnwrapOr d\<close> returns \<open>v\<close> for any fallback,
  and \<open>UnwrapOrErr e\<close> returns \<open>(v, nil)\<close> for any error.
\<close>

theorem Ok_behaviour:
  "IsOk (Ok v) \<and> \<not> IsErr (Ok v) \<and> Error (Ok v) = None \<and>
   Unwrap (Ok v) = Return v \<and> Expect (Ok v) m = Return v \<and>
   UnwrapOr (Ok v) d = v \<and> UnwrapOrErr (Ok v) e = (v, None)"
  by (simp add: Ok_def IsOk_def IsErr_def Error_def Unwrap_def Expect_def
      UnwrapOr_def UnwrapOrErr_def)

section \<open>Failure\<close>

text \<open>
  C2. For every error \<open>e\<close> (an error value, so not nil; the nil argument is C5), the
  result \<open>Err e\<close> answers \<open>IsErr\<close> with true and \<open>IsOk\<close> with false, its
  \<open>Error\<close> is \<open>e\<close>, \<open>UnwrapOr d\<close> returns the fallback \<open>d\<close>, and
  \<open>UnwrapOrErr e2\<close> returns the zero value of \<open>T\<close> with \<open>e2\<close>: the stored
  error \<open>e\<close> is not in the output.
\<close>

theorem Err_behaviour:
  "IsErr (Err (Some e) :: ('a::default) Result) \<and>
   \<not> IsOk (Err (Some e) :: 'a Result) \<and>
   Error (Err (Some e) :: 'a Result) = Some e \<and>
   UnwrapOr (Err (Some e)) d = (d :: 'a) \<and>
   UnwrapOrErr (Err (Some e) :: 'a Result) e2 = (default, e2)"
  by (simp add: Err_def IsOk_def IsErr_def Error_def UnwrapOr_def UnwrapOrErr_def)

text \<open>
  C3, as the claim states it, fails: on a failure whose error panics in its own
  \<^verbatim>\<open>Error()\<close> (here a nil pointer dereferenced by the method), \<open>Unwrap\<close> and
  \<open>Expect\<close> panic with that run-time error, and no message with the marker or the
  caller's text is built; on a failure whose \<^verbatim>\<open>Error()\<close> never returns they do not
  panic at all.
\<close>

theorem Unwrap_Expect_message_counterexample:
  "IsErr (Err (Some (customError ''*pathError''
            (Panics_runtime ''invalid memory address or nil pointer dereference''))) :: int Result) \<and>
   Unwrap (Err (Some (customError ''*pathError''
            (Panics_runtime ''invalid memory address or nil pointer dereference''))) :: int Result)
     = Panic (PanicRuntimeError ''invalid memory address or nil pointer dereference'') \<and>
   Expect (Err (Some (customError ''*pathError''
            (Panics_runtime ''invalid memory address or nil pointer dereference''))) :: int Result)
        ''cannot proceed''
     = Panic (PanicRuntimeError ''invalid memory address or nil pointer dereference'') \<and>
   IsErr (Err (Some (customError ''slowError'' Never_returns)) :: int Result) \<and>
   Unwrap (Err (Some (customError ''slowError'' Never_returns)) :: int Result) = Hang \<and>
   Expect (Err (Some (customError ''slowError'' Never_returns)) :: int Result) ''cannot proceed''
     = Hang"
  by (simp add: Err_def IsErr_def Unwrap_def Expect_def)

text \<open>
  C3, amended. On every result in the failure state (its error is some \<open>e\<close>,
  whatever its value field), \<open>Unwrap\<close> and \<open>Expect msg\<close> do not return normally.
  When \<^verbatim>\<open>Error()\<close> of \<open>e\<close> returns a text \<open>t\<close>, they panic: the panic message of
  \<open>Unwrap\<close> is the marker \<^verbatim>\<open>called Unwrap on Err: \<close> followed by \<open>t\<close>; that of
  \<open>Expect msg\<close> is \<open>msg\<close>, the separator \<^verbatim>\<open>: \<close> and \<open>t\<close>. So both messages
  contain \<open>t\<close>, and that of \<open>Expect\<close> contains \<open>msg\<close> too. When \<^verbatim>\<open>Error()\<close>
  itself panics, \<open>Unwrap\<close> and \<open>Expect\<close> panic with the same value, and when it
  never returns, neither do they.
\<close>

theorem failure_Unwrap_Expect_panic:
  assumes "err r = Some e"
  shows "(\<forall>v. Unwrap r \<noteq> Return v) \<and> (\<forall>v. Expect r msg \<noteq> Return v) \<and>
         (\<forall>t. error_Error e = Return t \<longrightarrow>
            Unwrap r = Panic (PanicString (''called Unwrap on Err: '' @ t)) \<and>
            Expect r msg = Panic (PanicString (msg @ '': '' @ t)) \<and>
            sublist t (''called Unwrap on Err: '' @ t) \<and>
            sublist t (msg @ '': '' @ t) \<and>
            sublist msg (msg @ '': '' @ t)) \<and>
         (\<forall>p. error_Error e = Panic p \<longrightarrow> Unwrap r = Panic p \<and> Expect r msg = Panic p) \<and>
         (error_Error e = Hang \<longrightarrow> Unwrap r = Hang \<and> Expect r msg = Hang)"
proof -
  have s1: "sublist t (''called Unwrap on Err: '' @ t)" for t :: string
    unfolding sublist_def by (intro exI [of _ "''called Unwrap on Err: ''"] exI [of _ "[]"]) simp
  have s2: "sublist t (msg @ '': '' @ t)" for t :: string
    unfolding sublist_def by (intro exI [of _ "msg @ '': ''"] exI [of _ "[]"]) simp
  have s3: "sublist msg (msg @ '': '' @ t)" for t :: string
    unfolding sublist_def by (intro exI [of _ "[]"] exI [of _ "'': '' @ t"]) simp
  show ?thesis
  proof (cases "error_Error e")
    case (Return t)
    with assms s1 s2 s3 show ?thesis by (simp add: Unwrap_def Expect_def)
  next
    case (Panic p)
    with assms show ?thesis by (simp add: Unwrap_def Expect_def)
  next
    case Hang
    with assms show ?thesis by (simp add: Unwrap_def Expect_def)
  qed
qed

theorem failure_Unwrap_Expect_panic_witness:
  "err (Err (Some (errorString ''disk full'')) :: int Result) = Some (errorString ''disk full'') \<and>
   error_Error (errorString ''disk full'') = Return ''disk full'' \<and>
   Unwrap (Err (Some (errorString ''disk full'')) :: int Result)
     = Panic (PanicString ''called Unwrap on Err: disk full'') \<and>
   Expect (Err (Some (errorString ''disk full'')) :: int Result) ''cannot proceed''
     = Panic (PanicString ''cannot proceed: disk full'') \<and>
   sublist ''disk full'' ''called Unwrap on Err: disk full'' \<and>
   sublist ''disk full'' ''cannot proceed: disk full'' \<and>
   sublist ''cannot proceed'' ''cannot proceed: disk full'' \<and>
   err (Err (Some (customError ''loudError'' (Panics_string ''boom''))) :: int Result)
     = Some (customError ''loudError'' (Panics_string ''boom'')) \<and>
   error_Error (customError ''loudError'' (Panics_string ''boom'')) = Panic (PanicString ''boom'') \<and>
   Unwrap (Err (Some (customError ''loudError'' (Panics_string ''boom''))) :: int Result)
     = Panic (PanicString ''boom'') \<and>
   err (Err (Some (customError ''slowError'' Never_returns)) :: int Result)
     = Some (customError ''slowError'' Never_returns) \<and>
   error_Error (customError ''slowError'' Never_returns) = Hang \<and>
   Unwrap (Err (Some (customError ''slowError'' Never_returns)) :: int Result) = Hang"
proof -
  have h1: "err (Err (Some (errorString ''disk full'')) :: int Result)
              = Some (errorString ''disk full'')"
    by (simp add: Err_def)
  have h2: "err (Err (Some (customError ''loudError'' (Panics_string ''boom''))) :: int Result)
              = Some (customError ''loudError'' (Panics_string ''boom''))"
    by (simp add: Err_def)
  have h3: "err (Err (Some (customError ''slowError'' Never_returns)) :: int Result)
              = Some (customError ''slowError'' Never_returns)"
    by (simp add: Err_def)
  show ?thesis
    using h1 h2 h3
      failure_Unwrap_Expect_panic [OF h1, of "''cannot proceed''"]
      failure_Unwrap_Expect_panic [OF h2, of "''cannot proceed''"]
      failure_Unwrap_Expect_panic [OF h3, of "''cannot proceed''"]
    by simp
qed

section \<open>The two predicates\<close>

text \<open>
  C4. For every instance, from either constructor or not (the statement is about any
  record), \<open>IsOk\<close> and \<open>IsErr\<close> are negations of each other: never both true,
  never both false.
\<close>

theorem IsOk_IsErr_complement:
  "IsOk r = (\<not> IsErr r) \<and> \<not> (IsOk r \<and> IsErr r) \<and> (IsOk r \<or> IsErr r)"
  by (auto simp add: IsOk_def IsErr_def)

section \<open>A nil error given to the failure constructor\<close>

text \<open>
  C5. \<open>Err\<close> does not check its argument. Built with the nil error, the instance is
  the success of the zero value: \<open>IsOk\<close> is true, \<open>IsErr\<close> false, \<open>Error\<close> nil,
  and \<open>Unwrap\<close> returns the zero value of \<open>T\<close> without a panic.
\<close>

theorem Err_nil_is_success:
  "Err None = (Ok default :: ('a::default) Result) \<and>
   IsOk (Err None :: 'a Result) \<and>
   \<not> IsErr (Err None :: 'a Result) \<and>
   Error (Err None :: 'a Result) = None \<and>
   Unwrap (Err None) = Return (default :: 'a)"
  by (simp add: Err_def Ok_def IsOk_def IsErr_def Error_def Unwrap_def)

section \<open>The fallback\<close>

text \<open>
  C6. \<open>UnwrapOr d\<close> returns the stored value on a success and the fallback \<open>d\<close>,
  unchanged, on a failure. Its body has no panic and calls nothing, so it is a total
  function to \<open>T\<close>: it returns on every result and every fallback. Its output does not
  depend on which error is stored, only on whether one is: two results with the same
  value field that are both successes or both failures give the same output.
\<close>

theorem UnwrapOr_behaviour:
  "(IsOk r \<longrightarrow> UnwrapOr r d = val r) \<and>
   (IsErr r \<longrightarrow> UnwrapOr r d = d) \<and>
   (val r = val r' \<and> (err r = None) = (err r' = None) \<longrightarrow> UnwrapOr r d = UnwrapOr r' d)"
  by (auto simp add: IsOk_def IsErr_def UnwrapOr_def)

theorem UnwrapOr_behaviour_witness:
  "IsOk (Ok (42::int)) \<and> UnwrapOr (Ok (42::int)) 0 = 42 \<and>
   IsErr (Err (Some (errorString ''disk full'')) :: int Result) \<and>
   UnwrapOr (Err (Some (errorString ''disk full''))) (7::int) = 7 \<and>
   val (Err (Some (errorString ''disk full'')) :: int Result)
     = val (Err (Some (wrapError ''cannot open file: x'' (errorString ''cannot open file''))) :: int Result) \<and>
   errorString ''disk full'' \<noteq> wrapError ''cannot open file: x'' (errorString ''cannot open file'') \<and>
   UnwrapOr (Err (Some (errorString ''disk full''))) (7::int)
     = UnwrapOr (Err (Some (wrapError ''cannot open file: x'' (errorString ''cannot open file'')))) 7"
  using UnwrapOr_behaviour [of "Ok (42::int)" 0 "Ok 42"]
    UnwrapOr_behaviour [of "Err (Some (errorString ''disk full'')) :: int Result" 7
      "Err (Some (wrapError ''cannot open file: x'' (errorString ''cannot open file'')))"]
  by (simp add: Ok_def Err_def IsOk_def IsErr_def)

section \<open>No method changes the instance\<close>







section \<open>The zero value of the struct\<close>

text \<open>
  C8. A \<open>Result\<close> that no constructor built, the zero value of the struct, is
  \<open>Ok\<close> of the zero value of \<open>T\<close>, and behaves so under every method: \<open>IsOk\<close>
  is true, \<open>IsErr\<close> false, \<open>Error\<close> nil, \<open>Unwrap\<close> and \<open>Expect m\<close> return the
  zero value of \<open>T\<close> without a panic, \<open>UnwrapOr d\<close> returns the zero value of
  \<open>T\<close>, and \<open>UnwrapOrErr e\<close> returns the zero value of \<open>T\<close> with nil.
\<close>

theorem zero_Result_is_Ok_zero:
  "(zero_Result :: ('a::default) Result) = Ok default \<and>
   IsOk (zero_Result :: 'a Result) \<and>
   \<not> IsErr (zero_Result :: 'a Result) \<and>
   Error (zero_Result :: 'a Result) = None \<and>
   Unwrap zero_Result = Return (default :: 'a) \<and>
   Expect zero_Result m = Return (default :: 'a) \<and>
   UnwrapOr zero_Result d = (default :: 'a) \<and>
   UnwrapOrErr zero_Result e = (default :: 'a, None)"
  by (simp add: zero_Result_def default_option_def Ok_def IsOk_def IsErr_def Error_def
      Unwrap_def Expect_def UnwrapOr_def UnwrapOrErr_def)

section \<open>What the substitute error and the panic value lose\<close>

text \<open>
  C9. \<open>UnwrapOrErr\<close> does not check its argument. On a result in the failure
  state, \<open>UnwrapOrErr nil\<close> returns the zero value of \<open>T\<close> with nil: the very
  output a success holding the zero value gives, for any argument.
\<close>

theorem UnwrapOrErr_nil_erases_failure:
  fixes r :: "('a::default) Result"
  assumes "IsErr r"
  shows "UnwrapOrErr r None = (default, None) \<and>
         UnwrapOrErr r None = UnwrapOrErr (Ok default) e2 \<and> IsOk (Ok default :: 'a Result)"
  using assms by (simp add: IsErr_def IsOk_def Ok_def UnwrapOrErr_def)

theorem UnwrapOrErr_nil_erases_failure_witness:
  "IsErr (Err (Some (errorString ''disk full'')) :: int Result) \<and>
   UnwrapOrErr (Err (Some (errorString ''disk full'')) :: int Result) None = (0, None) \<and>
   UnwrapOrErr (Err (Some (errorString ''disk full'')) :: int Result) None
     = UnwrapOrErr (Ok 0) (Some (errorString ''fatal''))"
proof -
  have h: "IsErr (Err (Some (errorString ''disk full'')) :: int Result)"
    by (simp add: IsErr_def Err_def)
  show ?thesis
    using h UnwrapOrErr_nil_erases_failure [OF h, of "Some (errorString ''fatal'')"]
    by (simp add: default_int_def UnwrapOrErr_def Ok_def)
qed

text \<open>
  C10, as the claim states it, fails: on a failure whose error panics in its own
  \<^verbatim>\<open>Error()\<close> with its receiver, the panic that leaves \<open>Unwrap\<close> and \<open>Expect\<close>
  carries the stored error value itself, not a string.
\<close>

theorem panic_value_counterexample:
  "err (Err (Some (customError ''*strictError'' Panics_receiver)) :: int Result)
     = Some (customError ''*strictError'' Panics_receiver) \<and>
   Unwrap (Err (Some (customError ''*strictError'' Panics_receiver)) :: int Result)
     = Panic (PanicError (customError ''*strictError'' Panics_receiver)) \<and>
   Expect (Err (Some (customError ''*strictError'' Panics_receiver)) :: int Result) ''cannot proceed''
     = Panic (PanicError (customError ''*strictError'' Panics_receiver))"
  by (simp add: Err_def Unwrap_def Expect_def)

text \<open>
  C10, amended. On a failure whose stored error returns a text \<open>t\<close> from
  \<^verbatim>\<open>Error()\<close>, the panic value of \<open>Unwrap\<close> and of \<open>Expect msg\<close> is a string made
  from \<open>t\<close>, and is not an error value. Two such failures whose errors return the
  same text panic with the same value, so the value recovered from the panic gives the
  text of the error and does not tell which error it was.
\<close>

theorem panic_value_is_text_only:
  assumes "err r = Some e" and "error_Error e = Return t"
  shows "Unwrap r = Panic (PanicString (''called Unwrap on Err: '' @ t)) \<and>
         Expect r msg = Panic (PanicString (msg @ '': '' @ t)) \<and>
         (\<forall>x. Unwrap r \<noteq> Panic (PanicError x)) \<and>
         (\<forall>x. Expect r msg \<noteq> Panic (PanicError x)) \<and>
         (\<forall>r' e'. err r' = Some e' \<and> error_Error e' = Return t \<longrightarrow>
            Unwrap r' = Unwrap r \<and> Expect r' msg = Expect r msg)"
proof -
  have u: "Unwrap r = Panic (PanicString (''called Unwrap on Err: '' @ t))"
    using assms by (simp add: Unwrap_def)
  have x: "Expect r msg = Panic (PanicString (msg @ '': '' @ t))"
    using assms by (simp add: Expect_def)
  have same: "Unwrap r' = Unwrap r \<and> Expect r' msg = Expect r msg"
    if "err r' = Some e'" and "error_Error e' = Return t" for r' :: "'a Result" and e'
    using that assms by (simp add: Unwrap_def Expect_def)
  have "\<forall>x. Unwrap r \<noteq> Panic (PanicError x)"
    by (simp add: u)
  moreover have "\<forall>x. Expect r msg \<noteq> Panic (PanicError x)"
    by (simp add: x)
  ultimately show ?thesis
    using u x same by blast
qed

theorem panic_value_is_text_only_witness:
  "err (Err (Some (errorString ''disk full'')) :: int Result) = Some (errorString ''disk full'') \<and>
   error_Error (errorString ''disk full'') = Return ''disk full'' \<and>
   err (Err (Some (wrapError ''disk full'' (errorString ''io''))) :: int Result)
     = Some (wrapError ''disk full'' (errorString ''io'')) \<and>
   error_Error (wrapError ''disk full'' (errorString ''io'')) = Return ''disk full'' \<and>
   wrapError ''disk full'' (errorString ''io'') \<noteq> errorString ''disk full'' \<and>
   Unwrap (Err (Some (errorString ''disk full'')) :: int Result)
     = Panic (PanicString ''called Unwrap on Err: disk full'') \<and>
   Unwrap (Err (Some (wrapError ''disk full'' (errorString ''io''))) :: int Result)
     = Unwrap (Err (Some (errorString ''disk full'')) :: int Result) \<and>
   Expect (Err (Some (wrapError ''disk full'' (errorString ''io''))) :: int Result) ''cannot proceed''
     = Expect (Err (Some (errorString ''disk full'')) :: int Result) ''cannot proceed'' \<and>
   Unwrap (Err (Some (errorString ''disk full'')) :: int Result)
     \<noteq> Panic (PanicError (errorString ''disk full''))"
proof -
  have h: "err (Err (Some (errorString ''disk full'')) :: int Result)
             = Some (errorString ''disk full'')"
    by (simp add: Err_def)
  have t: "error_Error (errorString ''disk full'') = Return ''disk full''"
    by simp
  have h': "err (Err (Some (wrapError ''disk full'' (errorString ''io''))) :: int Result)
              = Some (wrapError ''disk full'' (errorString ''io''))"
    by (simp add: Err_def)
  have t': "error_Error (wrapError ''disk full'' (errorString ''io'')) = Return ''disk full''"
    by simp
  have d: "wrapError ''disk full'' (errorString ''io'') \<noteq> errorString ''disk full''"
    by simp
  have c: "''called Unwrap on Err: '' @ ''disk full'' = ''called Unwrap on Err: disk full''"
    by simp
  from panic_value_is_text_only [OF h t, of "''cannot proceed''"] h h' t t' d c
  show ?thesis by metis
qed

end
